theory Spec2Isabelle
  imports Main
begin

section \<open>The server module of the Office of International Affairs backend\<close>

text \<open>
  The source is one Python module, \<^verbatim>\<open>server.py\<close>. Its body runs once when the module is
  imported: it loads the environment, configures logging and the Cloudinary SDK, checks
  \<^verbatim>\<open>MONGO_URL\<close>, constructs the database client, builds the FastAPI application with its
  lifespan hook, CORS middleware and root route and, when run as the main module, starts
  uvicorn.

  The module body is embedded as a function from the inputs of the process to the list of
  effects it performs, in order, and the exception that ended it, if any. The lifespan
  hook is an asynchronous generator; it is embedded as a start function and a resume
  function over its two suspension points.

  Conventions. A \<^typ>\<open>string\<close> is a Python \<^verbatim>\<open>str\<close> whose code points are below 256, one
  \<^typ>\<open>char\<close> per code point. The collaborators \<^verbatim>\<open>routes\<close> and \<^verbatim>\<open>database\<close> (lines 13 to
  20) and the third-party packages are taken as imported; the embedding starts at line 22.
  Calls into the logging, Cloudinary, Motor, FastAPI and uvicorn libraries are recorded as
  effects with their arguments and are taken to return normally. The text of a log or
  error message is kept without its leading pictograph.
\<close>

subsection \<open>Environment\<close>

type_synonym environ = "string \<rightharpoonup> string"

text \<open>\<^verbatim>\<open>os.getenv(key)\<close>: the value, or \<^verbatim>\<open>None\<close>.\<close>

definition getenv :: "environ \<Rightarrow> string \<Rightarrow> string option" where
  "getenv env k = env k"

text \<open>\<^verbatim>\<open>os.getenv(key, default)\<close> with a string default.\<close>

definition getenv_default :: "environ \<Rightarrow> string \<Rightarrow> string \<Rightarrow> string" where
  "getenv_default env k d = (case env k of None \<Rightarrow> d | Some v \<Rightarrow> v)"

text \<open>
  \<^verbatim>\<open>load_dotenv(path)\<close> of python-dotenv with its default \<^verbatim>\<open>override=False\<close>: every
  variable the file defines is added to \<^verbatim>\<open>os.environ\<close> unless the environment already has
  it. The first argument is the parsed file, empty when there is no file.
\<close>

definition load_dotenv :: "environ \<Rightarrow> environ \<Rightarrow> environ" where
  "load_dotenv file env = file ++ env"

text \<open>Python's \<^verbatim>\<open>not v\<close> for \<^verbatim>\<open>v\<close> a string or \<^verbatim>\<open>None\<close>.\<close>

definition py_not :: "string option \<Rightarrow> bool" where
  "py_not v = (case v of None \<Rightarrow> True | Some s \<Rightarrow> s = [])"

subsection \<open>The builtin \<^verbatim>\<open>int\<close> on a string, base 10\<close>

text \<open>
  \<^verbatim>\<open>int(s)\<close> accepts optional whitespace, an optional sign, and decimal digits in which
  single underscores may stand between two digits; anything else raises \<^verbatim>\<open>ValueError\<close>.
  Below 256 the whitespace code points it skips are 9 to 13, 32, 133 and 160, and the
  decimal digits are \<^verbatim>\<open>0\<close> to \<^verbatim>\<open>9\<close>. The interpreter also refuses a string with more
  digits than \<^verbatim>\<open>sys.get_int_max_str_digits()\<close> when that limit is not 0 (it is 4300 unless
  configured, and never between 1 and 639).
\<close>

definition py_isspace :: "char \<Rightarrow> bool" where
  "py_isspace c = ((of_char c :: nat) \<in> set [9, 10, 11, 12, 13, 32, 133, 160])"

definition py_isdigit :: "char \<Rightarrow> bool" where
  "py_isdigit c = (48 \<le> (of_char c :: nat) \<and> (of_char c :: nat) \<le> 57)"

definition digit_val :: "char \<Rightarrow> int" where
  "digit_val c = int (of_char c) - 48"

definition py_strip :: "string \<Rightarrow> string" where
  "py_strip s = rev (dropWhile py_isspace (rev (dropWhile py_isspace s)))"

text \<open>
  The digits after the first one: the value so far and the number of digits read so far
  are carried along.
\<close>

fun py_digits :: "int \<Rightarrow> nat \<Rightarrow> string \<Rightarrow> (int \<times> nat) option" where
  "py_digits acc n [] = Some (acc, n)"
| "py_digits acc n [c] =
     (if py_isdigit c then Some (acc * 10 + digit_val c, Suc n) else None)"
| "py_digits acc n (c # d # cs) =
     (if py_isdigit c then py_digits (acc * 10 + digit_val c) (Suc n) (d # cs)
      else if c = CHR ''_'' \<and> py_isdigit d
           then py_digits (acc * 10 + digit_val d) (Suc n) cs
      else None)"

definition py_sign :: "string \<Rightarrow> bool \<times> string" where
  "py_sign t = (case t of
       [] \<Rightarrow> (False, [])
     | c # r \<Rightarrow> if c = CHR ''-'' then (True, r)
                else if c = CHR ''+'' then (False, r)
                else (False, t))"

definition py_int :: "nat \<Rightarrow> string \<Rightarrow> int option" where
  "py_int max_digits s =
     (case py_sign (py_strip s) of
        (neg, []) \<Rightarrow> None
      | (neg, c # cs) \<Rightarrow>
          if py_isdigit c then
            (case py_digits (digit_val c) 1 cs of
               None \<Rightarrow> None
             | Some (v, n) \<Rightarrow>
                 if 0 < max_digits \<and> max_digits < n then None
                 else Some (if neg then - v else v))
          else None)"

subsection \<open>Effects and errors\<close>

record cloudinary_config =
  cloud_name :: "string option"
  api_key :: "string option"
  api_secret :: "string option"
  secure :: bool

record cors_config =
  allow_credentials :: bool
  allow_origins :: "string list"
  allow_methods :: "string list"
  allow_headers :: "string list"

text \<open>
  An exception object: whether its class derives from \<^verbatim>\<open>Exception\<close> or only from
  \<^verbatim>\<open>BaseException\<close> (as \<^verbatim>\<open>asyncio.CancelledError\<close>, \<^verbatim>\<open>KeyboardInterrupt\<close>,
  \<^verbatim>\<open>SystemExit\<close> and \<^verbatim>\<open>GeneratorExit\<close> do), the name of the class and \<^verbatim>\<open>str(e)\<close>.
\<close>

datatype exc_base = FromException | FromBaseException

datatype exc = Exc exc_base string string

fun is_Exception :: "exc \<Rightarrow> bool" where
  "is_Exception (Exc FromException _ _) = True"
| "is_Exception (Exc FromBaseException _ _) = False"

datatype log_level = INFO | ERROR

text \<open>The value an f-string interpolates into a log message.\<close>

datatype log_arg = NoArg | StrArg "string option" | IntArg int | ExcArg exc

datatype effect =
    LoadDotenv
  | LoggingBasicConfig
  | CloudinaryConfig cloudinary_config
  | Log log_level string log_arg
  | MotorClient string
  | SelectDatabase string
  | CreateApp string string string
  | AddCORSMiddleware cors_config
  | IncludeRouter
  | RegisterGet string
  | UvicornRun string string int bool
  | InitializeDatabase
  | Serving
  | ClientClose

datatype error = ValueError string

subsection \<open>The module body\<close>

record process_input =
  launch_env :: environ
  dotenv_file :: environ
  run_as_main :: bool
  int_max_str_digits :: nat

record outcome =
  effects :: "effect list"
  raised :: "error option"

text \<open>Lines 23 to 26: the \<^verbatim>\<open>.env\<close> file is loaded when \<^verbatim>\<open>os.getenv("RENDER") is None\<close>.\<close>

definition env_step :: "process_input \<Rightarrow> effect list \<times> environ" where
  "env_step inp =
     (if getenv (launch_env inp) ''RENDER'' = None
      then ([LoadDotenv], load_dotenv (dotenv_file inp) (launch_env inp))
      else ([], launch_env inp))"

text \<open>The environment every later \<^verbatim>\<open>os.getenv\<close> of the module reads.\<close>

definition os_environ :: "process_input \<Rightarrow> environ" where
  "os_environ inp = snd (env_step inp)"

text \<open>Lines 29 to 33.\<close>

definition logging_step :: "effect list" where
  "logging_step = [LoggingBasicConfig]"

text \<open>
  Lines 38 to 44. \<^verbatim>\<open>cloudinary.config(**kw)\<close> stores each keyword as given, \<^verbatim>\<open>None\<close>
  included, so the \<^verbatim>\<open>cloud_name\<close> read back for the log line is the one just passed.
\<close>

definition cloudinary_step :: "environ \<Rightarrow> effect list" where
  "cloudinary_step env =
     [CloudinaryConfig \<lparr>cloud_name = getenv env ''CLOUDINARY_CLOUD_NAME'',
                        api_key = getenv env ''CLOUDINARY_API_KEY'',
                        api_secret = getenv env ''CLOUDINARY_API_SECRET'',
                        secure = True\<rparr>,
      Log INFO ''Cloudinary ready: {}'' (StrArg (getenv env ''CLOUDINARY_CLOUD_NAME''))]"

text \<open>Lines 48 to 54.\<close>

definition mongo_error :: error where
  "mongo_error = ValueError ''MONGO_URL not found in environment variables.''"

definition mongo_step :: "environ \<Rightarrow> error + effect list" where
  "mongo_step env =
     (let mongo_url = getenv env ''MONGO_URL'' in
      if py_not mongo_url then Inl mongo_error
      else (case mongo_url of
              None \<Rightarrow> Inl mongo_error
            | Some u \<Rightarrow>
                Inr [MotorClient u,
                     SelectDatabase (getenv_default env ''DB_NAME'' ''medicapsoia'')]))"

text \<open>Lines 82 to 95.\<close>

definition cors_middleware :: cors_config where
  "cors_middleware =
     \<lparr>allow_credentials = True,
      allow_origins =
        [''https://io.medicaps.ac.in'',
         ''http://localhost:3000'',
         ''http://127.0.0.1:3000'',
         ''http://localhost:3001'',
         ''http://127.0.0.1:3001'',
         ''*''],
      allow_methods = [''GET'', ''POST'', ''PUT'', ''DELETE'', ''OPTIONS''],
      allow_headers = [''*'']\<rparr>"

text \<open>Lines 74 to 103: the application, its middleware, the router and the root route.\<close>

definition app_step :: "effect list" where
  "app_step =
     [CreateApp ''Student Exchange Programs API''
        ''API for managing international student exchange programs at Medi-Caps University''
        ''1.0.0'',
      AddCORSMiddleware cors_middleware,
      IncludeRouter,
      RegisterGet ''/api/'']"

text \<open>
  Line 110: \<^verbatim>\<open>int(os.getenv("PORT", 8000))\<close>. The default is the integer 8000, on which
  \<^verbatim>\<open>int\<close> is the identity; a value from the environment is a string and is parsed.
\<close>

definition port_error :: error where
  "port_error = ValueError ''invalid literal for int() with base 10''"

definition read_port :: "nat \<Rightarrow> environ \<Rightarrow> error + int" where
  "read_port max_digits env =
     (case getenv env ''PORT'' of
        None \<Rightarrow> Inr 8000
      | Some s \<Rightarrow> (case py_int max_digits s of
                     None \<Rightarrow> Inl port_error
                   | Some n \<Rightarrow> Inr n))"

text \<open>Lines 106 to 118, the body of \<^verbatim>\<open>if __name__ == "__main__"\<close>.\<close>

definition main_step :: "nat \<Rightarrow> environ \<Rightarrow> error + effect list" where
  "main_step max_digits env =
     (case read_port max_digits env of
        Inl e \<Rightarrow> Inl e
      | Inr port \<Rightarrow>
          Inr [Log INFO ''Starting server on port {}'' (IntArg port),
               UvicornRun ''server:app'' ''0.0.0.0'' port False])"

definition server_module :: "process_input \<Rightarrow> outcome" where
  "server_module inp =
     (let (ev1, env) = env_step inp;
          pre = ev1 @ logging_step @ cloudinary_step env
      in case mongo_step env of
           Inl e \<Rightarrow> \<lparr>effects = pre, raised = Some e\<rparr>
         | Inr ev2 \<Rightarrow>
             (let built = pre @ ev2 @ app_step in
              if run_as_main inp then
                (case main_step (int_max_str_digits inp) env of
                   Inl e \<Rightarrow> \<lparr>effects = built, raised = Some e\<rparr>
                 | Inr ev3 \<Rightarrow> \<lparr>effects = built @ ev3, raised = None\<rparr>)
              else \<lparr>effects = built, raised = None\<rparr>))"

text \<open>The effects that create the application or start the server.\<close>

fun starts_server :: "effect \<Rightarrow> bool" where
  "starts_server (CreateApp _ _ _) = True"
| "starts_server (UvicornRun _ _ _ _) = True"
| "starts_server _ = False"

fun ports_of :: "effect list \<Rightarrow> int list" where
  "ports_of [] = []"
| "ports_of (UvicornRun _ _ p _ # es) = p # ports_of es"
| "ports_of (_ # es) = ports_of es"

fun middlewares_of :: "effect list \<Rightarrow> cors_config list" where
  "middlewares_of [] = []"
| "middlewares_of (AddCORSMiddleware c # es) = c # middlewares_of es"
| "middlewares_of (_ # es) = middlewares_of es"

fun cloudinary_calls :: "effect list \<Rightarrow> cloudinary_config list" where
  "cloudinary_calls [] = []"
| "cloudinary_calls (CloudinaryConfig c # es) = c # cloudinary_calls es"
| "cloudinary_calls (_ # es) = cloudinary_calls es"

fun clients_of :: "effect list \<Rightarrow> string list" where
  "clients_of [] = []"
| "clients_of (MotorClient u # es) = u # clients_of es"
| "clients_of (_ # es) = clients_of es"

subsection \<open>The lifespan hook\<close>

text \<open>
  Lines 57 to 71. The generator has two \<^verbatim>\<open>yield\<close> statements, so it can be suspended at
  the one in the \<^verbatim>\<open>try\<close> block (line 64) or at the one in the \<^verbatim>\<open>except\<close> block (line 67).
  It is resumed by \<^verbatim>\<open>anext\<close> or by \<^verbatim>\<open>athrow\<close> with an exception; a step ends at the next
  \<^verbatim>\<open>yield\<close>, at the end of the body, or with an exception leaving the body. The
  \<^verbatim>\<open>finally\<close> block runs whenever control leaves the \<^verbatim>\<open>try\<close> statement.
\<close>

datatype init_result = InitReturns | InitRaises exc

datatype gen_point = AtTryYield | AtExceptYield

datatype gen_signal = Next | Throw exc

datatype gen_step = Yielded gen_point | Returned | Raised exc

definition finally_block :: "effect list" where
  "finally_block = [ClientClose, Log INFO ''Database connection closed'' NoArg]"

definition except_block :: "exc \<Rightarrow> effect list" where
  "except_block e = [Log ERROR ''Failed to initialize database: {}'' (ExcArg e)]"

definition lifespan_start :: "init_result \<Rightarrow> effect list \<times> gen_step" where
  "lifespan_start init =
     (case init of
        InitReturns \<Rightarrow>
          ([InitializeDatabase,
            Log INFO ''Student Exchange Programs API started successfully'' NoArg],
           Yielded AtTryYield)
      | InitRaises e \<Rightarrow>
          if is_Exception e
          then (InitializeDatabase # except_block e, Yielded AtExceptYield)
          else (InitializeDatabase # finally_block, Raised e))"

fun lifespan_resume :: "gen_point \<Rightarrow> gen_signal \<Rightarrow> effect list \<times> gen_step" where
  "lifespan_resume AtTryYield Next = (finally_block, Returned)"
| "lifespan_resume AtTryYield (Throw e) =
     (if is_Exception e then (except_block e, Yielded AtExceptYield)
      else (finally_block, Raised e))"
| "lifespan_resume AtExceptYield Next = (finally_block, Returned)"
| "lifespan_resume AtExceptYield (Throw e) = (finally_block, Raised e)"

text \<open>
  The protocol of \<^verbatim>\<open>contextlib.asynccontextmanager\<close> (CPython 3.11) that drives the
  generator in \<^verbatim>\<open>async with lifespan(app): body\<close>. \<^verbatim>\<open>__aenter__\<close> runs it to its first
  \<^verbatim>\<open>yield\<close>. \<^verbatim>\<open>__aexit__\<close> resumes it with \<^verbatim>\<open>anext\<close> when the body returned and with
  \<^verbatim>\<open>athrow\<close> when the body raised; a generator that yields again is closed with
  \<^verbatim>\<open>aclose\<close>, which throws \<^verbatim>\<open>GeneratorExit\<close> into it, and a \<^verbatim>\<open>RuntimeError\<close> is raised.
\<close>

datatype body_result = BodyReturns | BodyRaises exc

datatype cm_result = Completed | Propagated exc

definition GeneratorExit :: exc where
  "GeneratorExit = Exc FromBaseException ''GeneratorExit'' []"

definition RuntimeError :: "string \<Rightarrow> exc" where
  "RuntimeError msg = Exc FromException ''RuntimeError'' msg"

definition aclose :: "gen_point \<Rightarrow> effect list" where
  "aclose p = fst (lifespan_resume p (Throw GeneratorExit))"

definition aexit :: "gen_point \<Rightarrow> body_result \<Rightarrow> effect list \<times> cm_result" where
  "aexit p body =
     (case body of
        BodyReturns \<Rightarrow>
          (case lifespan_resume p Next of
             (evs, Returned) \<Rightarrow> (evs, Completed)
           | (evs, Yielded q) \<Rightarrow>
               (evs @ aclose q, Propagated (RuntimeError ''generator didn't stop''))
           | (evs, Raised e) \<Rightarrow> (evs, Propagated e))
      | BodyRaises b \<Rightarrow>
          (case lifespan_resume p (Throw b) of
             (evs, Returned) \<Rightarrow> (evs, Completed)
           | (evs, Yielded q) \<Rightarrow>
               (evs @ aclose q,
                Propagated (RuntimeError ''generator didn't stop after athrow()''))
           | (evs, Raised e) \<Rightarrow> (evs, Propagated e)))"

text \<open>
  One run of the hook: start-up, the time the server accepts connections (the effect
  \<^const>\<open>Serving\<close>, present only when \<^verbatim>\<open>__aenter__\<close> returned), and shut-down.
\<close>

definition run_lifespan :: "init_result \<Rightarrow> body_result \<Rightarrow> effect list \<times> cm_result" where
  "run_lifespan init body =
     (case lifespan_start init of
        (evs, Yielded p) \<Rightarrow>
          (case aexit p body of (evs', r) \<Rightarrow> (evs @ [Serving] @ evs', r))
      | (evs, Returned) \<Rightarrow> (evs, Propagated (RuntimeError ''generator didn't yield''))
      | (evs, Raised e) \<Rightarrow> (evs, Propagated e))"

subsection \<open>The root endpoint\<close>

text \<open>
  Lines 101 to 103. The handler has no parameter and returns a dictionary literal;
  FastAPI serialises the return value of a \<^verbatim>\<open>get\<close> route registered without
  \<^verbatim>\<open>status_code\<close> as a JSON response with status 200.
\<close>

record response =
  status :: nat
  body :: "(string \<times> string) list"

definition root :: "(string \<times> string) list" where
  "root = [(''message'', ''Student Exchange Programs API - Medi-Caps University'')]"

text \<open>
  The state a request can find the process in: whether the start-up initialisation
  succeeded, and whether the database client has been closed.
\<close>

record server_state =
  database_initialized :: bool
  client_closed :: bool

definition get_api_root :: "server_state \<Rightarrow> error + response" where
  "get_api_root st = Inr \<lparr>status = 200, body = root\<rparr>"

subsection \<open>The origin check of the CORS middleware\<close>

text \<open>
  Starlette's \<^verbatim>\<open>CORSMiddleware.is_allowed_origin\<close> for a configuration without
  \<^verbatim>\<open>allow_origin_regex\<close>: every origin is allowed when the list contains \<^verbatim>\<open>"*"\<close>,
  otherwise the origins in the list are.
\<close>

definition is_allowed_origin :: "cors_config \<Rightarrow> string \<Rightarrow> bool" where
  "is_allowed_origin cfg origin =
     (if ''*'' \<in> set (allow_origins cfg) then True
      else origin \<in> set (allow_origins cfg))"

section \<open>Properties of the module body\<close>

subsection \<open>The outcome in closed form\<close>

lemma server_module_raised:
  "raised (server_module inp) =
     (if py_not (getenv (os_environ inp) ''MONGO_URL'') then Some mongo_error
      else if run_as_main inp then
        (case read_port (int_max_str_digits inp) (os_environ inp) of
           Inl e \<Rightarrow> Some e | Inr p \<Rightarrow> None)
      else None)"
  by (simp add: server_module_def os_environ_def mongo_step_def main_step_def py_not_def
      split: prod.splits option.splits sum.splits)

lemma server_module_effects:
  "effects (server_module inp) =
     fst (env_step inp) @ logging_step @ cloudinary_step (os_environ inp) @
     (if py_not (getenv (os_environ inp) ''MONGO_URL'') then []
      else [MotorClient (the (getenv (os_environ inp) ''MONGO_URL'')),
            SelectDatabase (getenv_default (os_environ inp) ''DB_NAME'' ''medicapsoia'')]
           @ app_step @
           (if run_as_main inp then
              (case read_port (int_max_str_digits inp) (os_environ inp) of
                 Inl e \<Rightarrow> []
               | Inr p \<Rightarrow> [Log INFO ''Starting server on port {}'' (IntArg p),
                           UvicornRun ''server:app'' ''0.0.0.0'' p False])
            else []))"
  by (simp add: server_module_def os_environ_def mongo_step_def main_step_def py_not_def
      split: prod.splits option.splits sum.splits)

lemma read_port_error: "read_port m env = Inl e \<Longrightarrow> e = port_error"
  by (simp add: read_port_def split: option.splits)

lemma port_error_neq_mongo_error: "port_error \<noteq> mongo_error"
  by (simp add: port_error_def mongo_error_def)

lemma launch_value_kept:
  "getenv (launch_env inp) k = Some v \<Longrightarrow> getenv (os_environ inp) k = Some v"
  by (simp add: os_environ_def env_step_def getenv_def load_dotenv_def map_add_def)

subsection \<open>Views of an effect list\<close>

lemma clients_of_append: "clients_of (xs @ ys) = clients_of xs @ clients_of ys"
  by (induction xs rule: clients_of.induct) simp_all

lemma ports_of_append: "ports_of (xs @ ys) = ports_of xs @ ports_of ys"
  by (induction xs rule: ports_of.induct) simp_all

lemma middlewares_of_append:
  "middlewares_of (xs @ ys) = middlewares_of xs @ middlewares_of ys"
  by (induction xs rule: middlewares_of.induct) simp_all

lemma cloudinary_calls_append:
  "cloudinary_calls (xs @ ys) = cloudinary_calls xs @ cloudinary_calls ys"
  by (induction xs rule: cloudinary_calls.induct) simp_all

lemma count_list_app: "count_list (xs @ ys) a = count_list xs a + count_list ys a"
  by (induction xs) simp_all

lemma step_views:
  "clients_of (fst (env_step inp)) = []" "ports_of (fst (env_step inp)) = []"
  "middlewares_of (fst (env_step inp)) = []" "cloudinary_calls (fst (env_step inp)) = []"
  "list_all (\<lambda>e. \<not> starts_server e) (fst (env_step inp))"
  "clients_of logging_step = []" "ports_of logging_step = []"
  "middlewares_of logging_step = []" "cloudinary_calls logging_step = []"
  "list_all (\<lambda>e. \<not> starts_server e) logging_step"
  "clients_of (cloudinary_step env) = []" "ports_of (cloudinary_step env) = []"
  "middlewares_of (cloudinary_step env) = []"
  "list_all (\<lambda>e. \<not> starts_server e) (cloudinary_step env)"
  "clients_of app_step = []" "ports_of app_step = []"
  "middlewares_of app_step = [cors_middleware]" "cloudinary_calls app_step = []"
  by (simp_all add: env_step_def logging_step_def cloudinary_step_def app_step_def)

lemma cloudinary_calls_step:
  "cloudinary_calls (cloudinary_step env) =
     [\<lparr>cloud_name = getenv env ''CLOUDINARY_CLOUD_NAME'',
       api_key = getenv env ''CLOUDINARY_API_KEY'',
       api_secret = getenv env ''CLOUDINARY_API_SECRET'',
       secure = True\<rparr>]"
  by (simp add: cloudinary_step_def)

subsection \<open>The required database URL\<close>

text \<open>
  Claim C1. When \<^verbatim>\<open>MONGO_URL\<close> is absent from the environment the module reads at line
  48 (the process environment, completed from the \<^verbatim>\<open>.env\<close> file when that was loaded),
  the import raises the \<^verbatim>\<open>ValueError\<close> of line 50; no database client has been
  constructed, and neither the application nor the server has been created. When
  \<^verbatim>\<open>MONGO_URL\<close> is present and not empty, that error is not raised and the database client
  is constructed, once, with the value of the variable.
\<close>

theorem mongo_url_required:
  "(getenv (os_environ inp) ''MONGO_URL'' = None \<longrightarrow>
      raised (server_module inp) = Some mongo_error \<and>
      clients_of (effects (server_module inp)) = [] \<and>
      list_all (\<lambda>e. \<not> starts_server e) (effects (server_module inp))) \<and>
   (\<forall>u. getenv (os_environ inp) ''MONGO_URL'' = Some u \<and> u \<noteq> [] \<longrightarrow>
      raised (server_module inp) \<noteq> Some mongo_error \<and>
      clients_of (effects (server_module inp)) = [u])"
proof (intro conjI impI allI)
  assume "getenv (os_environ inp) ''MONGO_URL'' = None"
  then have f: "py_not (getenv (os_environ inp) ''MONGO_URL'')"
    by (simp add: py_not_def)
  show "raised (server_module inp) = Some mongo_error"
    using f by (simp add: server_module_raised)
  show "clients_of (effects (server_module inp)) = []"
    using f by (simp add: server_module_effects clients_of_append step_views)
  show "list_all (\<lambda>e. \<not> starts_server e) (effects (server_module inp))"
    using f by (simp add: server_module_effects step_views)
next
  fix u
  assume a: "getenv (os_environ inp) ''MONGO_URL'' = Some u \<and> u \<noteq> []"
  then have t: "\<not> py_not (getenv (os_environ inp) ''MONGO_URL'')"
    by (simp add: py_not_def)
  show "raised (server_module inp) \<noteq> Some mongo_error"
    using t port_error_neq_mongo_error
    by (auto simp add: server_module_raised split: sum.splits dest: read_port_error)
  show "clients_of (effects (server_module inp)) = [u]"
    using t a
    by (simp add: server_module_effects clients_of_append step_views split: sum.splits)
qed

theorem mongo_url_required_witness:
  "getenv (os_environ \<lparr>launch_env = [''RENDER'' \<mapsto> ''true''], dotenv_file = Map.empty,
       run_as_main = False, int_max_str_digits = 4300\<rparr>) ''MONGO_URL'' = None \<and>
   raised (server_module \<lparr>launch_env = [''RENDER'' \<mapsto> ''true''], dotenv_file = Map.empty,
       run_as_main = False, int_max_str_digits = 4300\<rparr>) = Some mongo_error \<and>
   getenv (os_environ \<lparr>launch_env = [''MONGO_URL'' \<mapsto> ''mongodb://db:27017''],
       dotenv_file = Map.empty, run_as_main = False, int_max_str_digits = 4300\<rparr>)
     ''MONGO_URL'' = Some ''mongodb://db:27017'' \<and>
   clients_of (effects (server_module
      \<lparr>launch_env = [''MONGO_URL'' \<mapsto> ''mongodb://db:27017''],
       dotenv_file = Map.empty, run_as_main = False, int_max_str_digits = 4300\<rparr>))
     = [''mongodb://db:27017'']"
proof -
  let ?a = "\<lparr>launch_env = [''RENDER'' \<mapsto> ''true''], dotenv_file = Map.empty,
       run_as_main = False, int_max_str_digits = 4300\<rparr>"
  let ?b = "\<lparr>launch_env = [''MONGO_URL'' \<mapsto> ''mongodb://db:27017''],
       dotenv_file = Map.empty, run_as_main = False, int_max_str_digits = 4300\<rparr>"
  have a: "getenv (os_environ ?a) ''MONGO_URL'' = None"
    by (simp add: os_environ_def env_step_def getenv_def)
  have b: "getenv (os_environ ?b) ''MONGO_URL'' = Some ''mongodb://db:27017''"
    by (simp add: os_environ_def env_step_def getenv_def load_dotenv_def)
  show ?thesis
    using a b mongo_url_required [of ?a] mongo_url_required [of ?b] by simp
qed

subsection \<open>Loading the local environment file\<close>

lemma no_load_after_env_step:
  "count_list logging_step LoadDotenv = 0"
  "count_list (cloudinary_step env) LoadDotenv = 0"
  "count_list app_step LoadDotenv = 0"
  "count_list (case r of Inl e \<Rightarrow> []
     | Inr p \<Rightarrow> [Log INFO ''Starting server on port {}'' (IntArg p),
                 UvicornRun ''server:app'' ''0.0.0.0'' p False]) LoadDotenv = 0"
  by (simp_all add: logging_step_def cloudinary_step_def app_step_def split: sum.splits)

lemma tail_count:
  "count_list (if b then [] else [MotorClient u, SelectDatabase d] @ app_step @
       (if m then (case r of Inl e \<Rightarrow> []
         | Inr p \<Rightarrow> [Log INFO ''Starting server on port {}'' (IntArg p),
                 UvicornRun ''server:app'' ''0.0.0.0'' p False]) else [])) LoadDotenv = 0"
  by (cases b; cases m) (simp_all add: count_list_app no_load_after_env_step)

lemma count_load_dotenv:
  "count_list (effects (server_module inp)) LoadDotenv =
     count_list (fst (env_step inp)) LoadDotenv"
  unfolding server_module_effects count_list_app tail_count no_load_after_env_step
  by simp

text \<open>
  Claim C6. The \<^verbatim>\<open>.env\<close> file is loaded, once, exactly when \<^verbatim>\<open>RENDER\<close> is unset in the
  environment of the process. When \<^verbatim>\<open>RENDER\<close> is present with any value, the empty string
  included, the file is not loaded and the module reads the process environment as it is.
\<close>

theorem dotenv_iff_render_unset:
  "count_list (effects (server_module inp)) LoadDotenv =
     (if getenv (launch_env inp) ''RENDER'' = None then 1 else 0) \<and>
   (\<forall>v. getenv (launch_env inp) ''RENDER'' = Some v \<longrightarrow>
      LoadDotenv \<notin> set (effects (server_module inp)) \<and> os_environ inp = launch_env inp)"
proof -
  have cnt: "count_list (effects (server_module inp)) LoadDotenv =
      (if getenv (launch_env inp) ''RENDER'' = None then 1 else 0)"
    by (simp add: count_load_dotenv env_step_def)
  have "LoadDotenv \<notin> set (effects (server_module inp)) \<and> os_environ inp = launch_env inp"
    if "getenv (launch_env inp) ''RENDER'' = Some v" for v
  proof
    from that cnt have "count_list (effects (server_module inp)) LoadDotenv = 0" by simp
    then show "LoadDotenv \<notin> set (effects (server_module inp))"
      by (simp add: count_list_0_iff)
    from that show "os_environ inp = launch_env inp"
      by (simp add: os_environ_def env_step_def)
  qed
  with cnt show ?thesis by blast
qed

theorem dotenv_iff_render_unset_witness:
  "getenv (launch_env \<lparr>launch_env = [''RENDER'' \<mapsto> []],
       dotenv_file = [''MONGO_URL'' \<mapsto> ''mongodb://local''], run_as_main = False,
       int_max_str_digits = 4300\<rparr>) ''RENDER'' = Some [] \<and>
   LoadDotenv \<notin> set (effects (server_module \<lparr>launch_env = [''RENDER'' \<mapsto> []],
       dotenv_file = [''MONGO_URL'' \<mapsto> ''mongodb://local''], run_as_main = False,
       int_max_str_digits = 4300\<rparr>)) \<and>
   count_list (effects (server_module \<lparr>launch_env = Map.empty,
       dotenv_file = [''MONGO_URL'' \<mapsto> ''mongodb://local''], run_as_main = False,
       int_max_str_digits = 4300\<rparr>)) LoadDotenv = 1"
proof -
  let ?a = "\<lparr>launch_env = [''RENDER'' \<mapsto> []],
       dotenv_file = [''MONGO_URL'' \<mapsto> ''mongodb://local''], run_as_main = False,
       int_max_str_digits = 4300\<rparr>"
  let ?b = "\<lparr>launch_env = Map.empty,
       dotenv_file = [''MONGO_URL'' \<mapsto> ''mongodb://local''], run_as_main = False,
       int_max_str_digits = 4300\<rparr>"
  have a: "getenv (launch_env ?a) ''RENDER'' = Some []" by (simp add: getenv_def)
  have b: "getenv (launch_env ?b) ''RENDER'' = None" by (simp add: getenv_def)
  show ?thesis
    using a b dotenv_iff_render_unset [of ?a] dotenv_iff_render_unset [of ?b] by simp
qed

subsection \<open>The listening port\<close>

lemma port_not_an_integer:
  assumes "run_as_main inp"
    and "\<not> py_not (getenv (os_environ inp) ''MONGO_URL'')"
    and "getenv (os_environ inp) ''PORT'' = Some s"
    and "py_int (int_max_str_digits inp) s = None"
  shows "raised (server_module inp) = Some port_error \<and>
         ports_of (effects (server_module inp)) = []"
  using assms
  by (simp add: server_module_effects server_module_raised ports_of_append step_views
      read_port_def)

lemma imported_module_does_not_listen:
  "\<not> run_as_main inp \<Longrightarrow> ports_of (effects (server_module inp)) = []"
  by (simp add: server_module_effects ports_of_append step_views)

lemma py_int_10000: "py_int 4300 ''10000'' = Some 10000"
  by (simp add: py_int_def py_strip_def py_sign_def py_isspace_def py_isdigit_def
      digit_val_def)

text \<open>
  Claim C7. When the module is run as the main module and its body reaches line 106
  (the \<^verbatim>\<open>MONGO_URL\<close> check passed), \<^verbatim>\<open>uvicorn.run\<close> is called once, with port 8000 when
  \<^verbatim>\<open>PORT\<close> is unset and with the integer \<^verbatim>\<open>int\<close> reads from the value of \<^verbatim>\<open>PORT\<close> when it is
  set.
\<close>

theorem listening_port:
  assumes "run_as_main inp"
    and "\<not> py_not (getenv (os_environ inp) ''MONGO_URL'')"
  shows "(getenv (os_environ inp) ''PORT'' = None \<longrightarrow>
            ports_of (effects (server_module inp)) = [8000]) \<and>
         (\<forall>s n. getenv (os_environ inp) ''PORT'' = Some s \<and>
                py_int (int_max_str_digits inp) s = Some n \<longrightarrow>
            ports_of (effects (server_module inp)) = [n])"
  using assms
  by (simp add: server_module_effects ports_of_append step_views read_port_def)

theorem listening_port_witness:
  "run_as_main \<lparr>launch_env = [''RENDER'' \<mapsto> ''true'', ''MONGO_URL'' \<mapsto> ''mongodb://db'',
        ''PORT'' \<mapsto> ''10000''], dotenv_file = Map.empty, run_as_main = True,
        int_max_str_digits = 4300\<rparr> \<and>
   ports_of (effects (server_module
      \<lparr>launch_env = [''RENDER'' \<mapsto> ''true'', ''MONGO_URL'' \<mapsto> ''mongodb://db'',
        ''PORT'' \<mapsto> ''10000''], dotenv_file = Map.empty, run_as_main = True,
        int_max_str_digits = 4300\<rparr>)) = [10000] \<and>
   ports_of (effects (server_module
      \<lparr>launch_env = [''RENDER'' \<mapsto> ''true'', ''MONGO_URL'' \<mapsto> ''mongodb://db''],
        dotenv_file = Map.empty, run_as_main = True,
        int_max_str_digits = 4300\<rparr>)) = [8000]"
proof -
  let ?a = "\<lparr>launch_env = [''RENDER'' \<mapsto> ''true'', ''MONGO_URL'' \<mapsto> ''mongodb://db'',
        ''PORT'' \<mapsto> ''10000''], dotenv_file = Map.empty, run_as_main = True,
        int_max_str_digits = 4300\<rparr>"
  let ?b = "\<lparr>launch_env = [''RENDER'' \<mapsto> ''true'', ''MONGO_URL'' \<mapsto> ''mongodb://db''],
        dotenv_file = Map.empty, run_as_main = True,
        int_max_str_digits = 4300\<rparr>"
  have a1: "run_as_main ?a" and b1: "run_as_main ?b" by simp_all
  have a2: "\<not> py_not (getenv (os_environ ?a) ''MONGO_URL'')"
    by (simp add: py_not_def os_environ_def env_step_def getenv_def)
  have b2: "\<not> py_not (getenv (os_environ ?b) ''MONGO_URL'')"
    by (simp add: py_not_def os_environ_def env_step_def getenv_def)
  have a3: "getenv (os_environ ?a) ''PORT'' = Some ''10000''"
    by (simp add: os_environ_def env_step_def getenv_def)
  have b3: "getenv (os_environ ?b) ''PORT'' = None"
    by (simp add: os_environ_def env_step_def getenv_def)
  have a4: "py_int (int_max_str_digits ?a) ''10000'' = Some 10000"
    using py_int_10000 by simp
  from listening_port [OF a1 a2] a3 a4
  have "ports_of (effects (server_module ?a)) = [10000]" by blast
  moreover from listening_port [OF b1 b2] b3
  have "ports_of (effects (server_module ?b)) = [8000]" by blast
  ultimately show ?thesis using a1 by blast
qed

subsection \<open>An empty database URL\<close>

text \<open>
  Claim C8. The check of line 49 is \<^verbatim>\<open>not mongo_url\<close>: when \<^verbatim>\<open>MONGO_URL\<close> is set to the
  empty string, in the process environment or in the environment the module reads, the
  import raises the same \<^verbatim>\<open>ValueError\<close> as for an absent variable, with no database
  client, application or server created, and lines 48 to 54 behave exactly as they do
  with the variable removed.
\<close>

theorem empty_mongo_url_rejected:
  assumes "getenv (launch_env inp) ''MONGO_URL'' = Some [] \<or>
           getenv (os_environ inp) ''MONGO_URL'' = Some []"
  shows "raised (server_module inp) = Some mongo_error \<and>
         clients_of (effects (server_module inp)) = [] \<and>
         list_all (\<lambda>e. \<not> starts_server e) (effects (server_module inp)) \<and>
         mongo_step (os_environ inp) = mongo_step ((os_environ inp)(''MONGO_URL'' := None))"
proof -
  from assms have e: "getenv (os_environ inp) ''MONGO_URL'' = Some []"
    using launch_value_kept by blast
  then have f: "py_not (getenv (os_environ inp) ''MONGO_URL'')"
    by (simp add: py_not_def)
  have "raised (server_module inp) = Some mongo_error"
    using f by (simp add: server_module_raised)
  moreover have "clients_of (effects (server_module inp)) = []"
    using f by (simp add: server_module_effects clients_of_append step_views)
  moreover have "list_all (\<lambda>e. \<not> starts_server e) (effects (server_module inp))"
    using f by (simp add: server_module_effects step_views)
  moreover have
    "mongo_step (os_environ inp) = mongo_step ((os_environ inp)(''MONGO_URL'' := None))"
    using e by (simp add: mongo_step_def getenv_def py_not_def)
  ultimately show ?thesis by blast
qed

theorem empty_mongo_url_rejected_witness:
  "getenv (launch_env \<lparr>launch_env = [''MONGO_URL'' \<mapsto> []],
       dotenv_file = [''MONGO_URL'' \<mapsto> ''mongodb://local''], run_as_main = False,
       int_max_str_digits = 4300\<rparr>) ''MONGO_URL'' = Some [] \<and>
   raised (server_module \<lparr>launch_env = [''MONGO_URL'' \<mapsto> []],
       dotenv_file = [''MONGO_URL'' \<mapsto> ''mongodb://local''], run_as_main = False,
       int_max_str_digits = 4300\<rparr>) = Some mongo_error"
proof -
  let ?a = "\<lparr>launch_env = [''MONGO_URL'' \<mapsto> []],
       dotenv_file = [''MONGO_URL'' \<mapsto> ''mongodb://local''], run_as_main = False,
       int_max_str_digits = 4300\<rparr>"
  have a: "getenv (launch_env ?a) ''MONGO_URL'' = Some []" by (simp add: getenv_def)
  then have "getenv (launch_env ?a) ''MONGO_URL'' = Some [] \<or>
             getenv (os_environ ?a) ''MONGO_URL'' = Some []" by (rule disjI1)
  from empty_mongo_url_rejected [OF this] a show ?thesis by blast
qed

subsection \<open>The Cloudinary credentials\<close>

text \<open>
  Claim C9. \<^verbatim>\<open>cloudinary.config\<close> is called once in every import, with the three
  credentials as \<^verbatim>\<open>os.getenv\<close> returns them, so \<^verbatim>\<open>None\<close> for each absent one. No error
  comes from them: an import that passes the \<^verbatim>\<open>MONGO_URL\<close> check and is not run as the
  main module raises nothing, and the exception an import ends with is the same for any
  two processes that differ only in the three Cloudinary variables.
\<close>

theorem cloudinary_unvalidated:
  "cloudinary_calls (effects (server_module inp)) =
     [\<lparr>cloud_name = getenv (os_environ inp) ''CLOUDINARY_CLOUD_NAME'',
       api_key = getenv (os_environ inp) ''CLOUDINARY_API_KEY'',
       api_secret = getenv (os_environ inp) ''CLOUDINARY_API_SECRET'',
       secure = True\<rparr>] \<and>
   (\<not> py_not (getenv (os_environ inp) ''MONGO_URL'') \<and> \<not> run_as_main inp \<longrightarrow>
      raised (server_module inp) = None) \<and>
   (\<forall>inp'. run_as_main inp' = run_as_main inp \<and>
           int_max_str_digits inp' = int_max_str_digits inp \<and>
           (\<forall>k. k \<notin> {''CLOUDINARY_CLOUD_NAME'', ''CLOUDINARY_API_KEY'',
                       ''CLOUDINARY_API_SECRET''} \<longrightarrow>
                os_environ inp' k = os_environ inp k) \<longrightarrow>
      raised (server_module inp') = raised (server_module inp))"
proof (intro conjI allI impI)
  show "cloudinary_calls (effects (server_module inp)) =
     [\<lparr>cloud_name = getenv (os_environ inp) ''CLOUDINARY_CLOUD_NAME'',
       api_key = getenv (os_environ inp) ''CLOUDINARY_API_KEY'',
       api_secret = getenv (os_environ inp) ''CLOUDINARY_API_SECRET'',
       secure = True\<rparr>]"
    by (simp add: server_module_effects cloudinary_calls_append step_views
        cloudinary_calls_step split: sum.splits)
next
  assume "\<not> py_not (getenv (os_environ inp) ''MONGO_URL'') \<and> \<not> run_as_main inp"
  then show "raised (server_module inp) = None"
    by (simp add: server_module_raised)
next
  fix inp'
  assume h: "run_as_main inp' = run_as_main inp \<and>
           int_max_str_digits inp' = int_max_str_digits inp \<and>
           (\<forall>k. k \<notin> {''CLOUDINARY_CLOUD_NAME'', ''CLOUDINARY_API_KEY'',
                       ''CLOUDINARY_API_SECRET''} \<longrightarrow>
                os_environ inp' k = os_environ inp k)"
  then have m: "os_environ inp' ''MONGO_URL'' = os_environ inp ''MONGO_URL''"
    by simp
  from h have p: "os_environ inp' ''PORT'' = os_environ inp ''PORT''"
    by simp
  from p have "read_port m (os_environ inp') = read_port m (os_environ inp)" for m
    by (simp add: read_port_def getenv_def)
  with m h show "raised (server_module inp') = raised (server_module inp)"
    by (simp add: server_module_raised getenv_def)
qed

theorem cloudinary_unvalidated_witness:
  "cloudinary_calls (effects (server_module
      \<lparr>launch_env = [''RENDER'' \<mapsto> ''true'', ''MONGO_URL'' \<mapsto> ''mongodb://db''],
       dotenv_file = Map.empty, run_as_main = False, int_max_str_digits = 4300\<rparr>)) =
     [\<lparr>cloud_name = None, api_key = None, api_secret = None, secure = True\<rparr>] \<and>
   raised (server_module
      \<lparr>launch_env = [''RENDER'' \<mapsto> ''true'', ''MONGO_URL'' \<mapsto> ''mongodb://db''],
       dotenv_file = Map.empty, run_as_main = False, int_max_str_digits = 4300\<rparr>) = None \<and>
   raised (server_module
      \<lparr>launch_env = [''RENDER'' \<mapsto> ''true'', ''MONGO_URL'' \<mapsto> ''mongodb://db'',
         ''CLOUDINARY_CLOUD_NAME'' \<mapsto> ''oia'', ''CLOUDINARY_API_KEY'' \<mapsto> ''key'',
         ''CLOUDINARY_API_SECRET'' \<mapsto> ''secret''],
       dotenv_file = Map.empty, run_as_main = False, int_max_str_digits = 4300\<rparr>) = None"
proof -
  let ?a = "\<lparr>launch_env = [''RENDER'' \<mapsto> ''true'', ''MONGO_URL'' \<mapsto> ''mongodb://db''],
       dotenv_file = Map.empty, run_as_main = False, int_max_str_digits = 4300\<rparr>"
  let ?b = "\<lparr>launch_env = [''RENDER'' \<mapsto> ''true'', ''MONGO_URL'' \<mapsto> ''mongodb://db'',
         ''CLOUDINARY_CLOUD_NAME'' \<mapsto> ''oia'', ''CLOUDINARY_API_KEY'' \<mapsto> ''key'',
         ''CLOUDINARY_API_SECRET'' \<mapsto> ''secret''],
       dotenv_file = Map.empty, run_as_main = False, int_max_str_digits = 4300\<rparr>"
  have e: "os_environ ?a = [''RENDER'' \<mapsto> ''true'', ''MONGO_URL'' \<mapsto> ''mongodb://db'']"
    by (simp add: os_environ_def env_step_def getenv_def)
  have e': "os_environ ?b = [''RENDER'' \<mapsto> ''true'', ''MONGO_URL'' \<mapsto> ''mongodb://db'',
         ''CLOUDINARY_CLOUD_NAME'' \<mapsto> ''oia'', ''CLOUDINARY_API_KEY'' \<mapsto> ''key'',
         ''CLOUDINARY_API_SECRET'' \<mapsto> ''secret'']"
    by (simp add: os_environ_def env_step_def getenv_def)
  have m: "\<not> py_not (getenv (os_environ ?a) ''MONGO_URL'') \<and> \<not> run_as_main ?a"
    by (simp add: e getenv_def py_not_def)
  have c: "getenv (os_environ ?a) ''CLOUDINARY_CLOUD_NAME'' = None"
    "getenv (os_environ ?a) ''CLOUDINARY_API_KEY'' = None"
    "getenv (os_environ ?a) ''CLOUDINARY_API_SECRET'' = None"
    by (simp_all add: e getenv_def)
  have agree: "run_as_main ?b = run_as_main ?a \<and>
      int_max_str_digits ?b = int_max_str_digits ?a \<and>
      (\<forall>k. k \<notin> {''CLOUDINARY_CLOUD_NAME'', ''CLOUDINARY_API_KEY'',
                  ''CLOUDINARY_API_SECRET''} \<longrightarrow>
           os_environ ?b k = os_environ ?a k)"
    by (simp add: e e')
  from cloudinary_unvalidated [of ?a] m
  have calls: "cloudinary_calls (effects (server_module ?a)) =
     [\<lparr>cloud_name = getenv (os_environ ?a) ''CLOUDINARY_CLOUD_NAME'',
       api_key = getenv (os_environ ?a) ''CLOUDINARY_API_KEY'',
       api_secret = getenv (os_environ ?a) ''CLOUDINARY_API_SECRET'',
       secure = True\<rparr>]" and none: "raised (server_module ?a) = None"
    by blast+
  from cloudinary_unvalidated [of ?a] agree
  have "raised (server_module ?b) = raised (server_module ?a)" by blast
  with calls none show ?thesis by (simp add: c)
qed

subsection \<open>The CORS configuration\<close>

text \<open>
  Claim C5. Every import that creates the application registers the CORS middleware
  once, with credentials allowed, the five named origins followed by \<^verbatim>\<open>"*"\<close>, the five
  methods and the wildcard header list; the configuration is the same for every
  environment and no origin enters it.
\<close>

theorem cors_configuration_static:
  "middlewares_of (effects (server_module inp)) =
     (if py_not (getenv (os_environ inp) ''MONGO_URL'') then []
      else [\<lparr>allow_credentials = True,
             allow_origins =
               [''https://io.medicaps.ac.in'', ''http://localhost:3000'',
                ''http://127.0.0.1:3000'', ''http://localhost:3001'',
                ''http://127.0.0.1:3001'', ''*''],
             allow_methods = [''GET'', ''POST'', ''PUT'', ''DELETE'', ''OPTIONS''],
             allow_headers = [''*'']\<rparr>])"
  by (simp add: server_module_effects middlewares_of_append step_views cors_middleware_def
      split: sum.splits)

text \<open>
  Claim C10. The configured origin list holds the wildcard next to the five named
  origins, with credentials allowed, so the middleware's origin check accepts every
  origin string.
\<close>

theorem wildcard_admits_every_origin:
  "is_allowed_origin cors_middleware origin \<and>
   allow_credentials cors_middleware \<and>
   ''*'' \<in> set (allow_origins cors_middleware) \<and>
   length (allow_origins cors_middleware) = 6"
  by (simp add: is_allowed_origin_def cors_middleware_def)

text \<open>Without the wildcard entry the same check refuses an origin that is not listed.\<close>

lemma named_origins_alone_would_refuse:
  "\<not> is_allowed_origin (cors_middleware\<lparr>allow_origins := butlast (allow_origins cors_middleware)\<rparr>)
      ''https://example.org''"
  by (simp add: is_allowed_origin_def cors_middleware_def)

subsection \<open>The root endpoint\<close>

text \<open>
  Claim C4. In every state of the server the handler of \<^verbatim>\<open>GET /api/\<close> takes no input,
  does not fail, and answers with status 200 and the fixed message.
\<close>

theorem root_endpoint:
  "get_api_root st =
     Inr \<lparr>status = 200,
          body = [(''message'', ''Student Exchange Programs API - Medi-Caps University'')]\<rparr>"
  by (simp add: get_api_root_def root_def)

section \<open>Properties of the lifespan hook\<close>

subsection \<open>Where the client is closed\<close>

lemma lifespan_start_closes:
  "count_list (fst (lifespan_start init)) ClientClose =
     (case snd (lifespan_start init) of Yielded p \<Rightarrow> 0 | Returned \<Rightarrow> 1 | Raised e \<Rightarrow> 1)"
  by (cases init)
     (simp_all add: lifespan_start_def finally_block_def except_block_def)

lemma lifespan_start_not_returned: "snd (lifespan_start init) \<noteq> Returned"
  by (cases init) (simp_all add: lifespan_start_def)

lemma aclose_ends: "aclose p = finally_block"
  by (cases p) (simp_all add: aclose_def GeneratorExit_def)

lemma aexit_closes: "count_list (fst (aexit p bd)) ClientClose = 1"
proof (cases bd)
  case BodyReturns
  then show ?thesis
    by (cases p) (simp_all add: aexit_def finally_block_def)
next
  case (BodyRaises b)
  then show ?thesis
    by (cases p; cases "is_Exception b")
       (simp_all add: aexit_def finally_block_def except_block_def aclose_ends)
qed

lemma aexit_ends:
  "\<exists>pre. fst (aexit p bd) = pre @ finally_block \<and> ClientClose \<notin> set pre"
proof (cases bd)
  case BodyReturns
  then show ?thesis
    by (cases p) (simp_all add: aexit_def)
next
  case (BodyRaises b)
  then show ?thesis
    by (cases p; cases "is_Exception b")
       (simp_all add: aexit_def except_block_def aclose_ends)
qed

text \<open>
  Claim C3. In every run of the lifespan hook, whatever the start-up initialisation does
  (returns, raises an exception deriving from \<^verbatim>\<open>Exception\<close>, raises another one) and
  however the serving phase ends, \<^verbatim>\<open>client.close()\<close> is called exactly once, in the
  \<^verbatim>\<open>finally\<close> block that ends the run: nothing before that block closes the client.
\<close>

theorem client_closed_once:
  "count_list (fst (run_lifespan init bd)) ClientClose = 1 \<and>
   (\<exists>pre. fst (run_lifespan init bd) = pre @ finally_block \<and> ClientClose \<notin> set pre)"
proof (cases "snd (lifespan_start init)")
  case (Yielded p)
  then obtain evs where s: "lifespan_start init = (evs, Yielded p)"
    by (cases "lifespan_start init") simp
  obtain evs' r where x: "aexit p bd = (evs', r)"
    by (cases "aexit p bd")
  have pre0: "count_list evs ClientClose = 0"
    using lifespan_start_closes [of init] s by simp
  then have notin: "ClientClose \<notin> set evs"
    by (simp add: count_list_0_iff)
  have run: "fst (run_lifespan init bd) = evs @ [Serving] @ evs'"
    by (simp add: run_lifespan_def s x)
  have one: "count_list evs' ClientClose = 1"
    using aexit_closes [of p bd] x by simp
  obtain pre where e: "evs' = pre @ finally_block" and n: "ClientClose \<notin> set pre"
    using aexit_ends [of p bd] x by auto
  have "count_list (fst (run_lifespan init bd)) ClientClose = 1"
    using pre0 one by (simp add: run count_list_app)
  moreover have "fst (run_lifespan init bd) = (evs @ [Serving] @ pre) @ finally_block"
    by (simp add: run e)
  moreover have "ClientClose \<notin> set (evs @ [Serving] @ pre)"
    using notin n by simp
  ultimately show ?thesis by blast
next
  case Returned
  then show ?thesis using lifespan_start_not_returned [of init] by simp
next
  case (Raised e)
  then obtain b where i: "init = InitRaises b" and nb: "\<not> is_Exception b"
    by (cases init) (auto simp add: lifespan_start_def split: if_splits)
  have run: "fst (run_lifespan init bd) = [InitializeDatabase] @ finally_block"
    by (simp add: run_lifespan_def lifespan_start_def i nb)
  have "count_list (fst (run_lifespan init bd)) ClientClose = 1"
    by (simp add: run finally_block_def)
  moreover have "ClientClose \<notin> set [InitializeDatabase]" by simp
  ultimately show ?thesis using run by blast
qed

text \<open>When the server was started, the close comes after the serving phase.\<close>

lemma served_before_close:
  "Serving \<in> set (fst (run_lifespan init bd)) \<Longrightarrow>
   ClientClose \<notin> set (takeWhile (\<lambda>e. e \<noteq> Serving) (fst (run_lifespan init bd)))"
proof (cases "snd (lifespan_start init)")
  case (Yielded p)
  then obtain evs where s: "lifespan_start init = (evs, Yielded p)"
    by (cases "lifespan_start init") simp
  obtain evs' r where x: "aexit p bd = (evs', r)"
    by (cases "aexit p bd")
  have "count_list evs ClientClose = 0"
    using lifespan_start_closes [of init] s by simp
  then have notin: "ClientClose \<notin> set evs"
    by (simp add: count_list_0_iff)
  have run: "fst (run_lifespan init bd) = evs @ [Serving] @ evs'"
    by (simp add: run_lifespan_def s x)
  have "set (takeWhile (\<lambda>e. e \<noteq> Serving) (evs @ [Serving] @ evs')) \<subseteq> set evs"
    by (induction evs) auto
  with notin show ?thesis by (auto simp add: run)
next
  case Returned
  then show ?thesis using lifespan_start_not_returned [of init] by simp
next
  case (Raised e)
  assume a: "Serving \<in> set (fst (run_lifespan init bd))"
  from Raised obtain b where i: "init = InitRaises b" and nb: "\<not> is_Exception b"
    by (cases init) (auto simp add: lifespan_start_def split: if_splits)
  have "fst (run_lifespan init bd) = [InitializeDatabase] @ finally_block"
    by (simp add: run_lifespan_def lifespan_start_def i nb)
  with a show ?thesis by (simp add: finally_block_def)
qed

subsection \<open>A failing initialisation\<close>

lemma exception_caught:
  assumes "is_Exception e"
  shows "lifespan_start (InitRaises e) =
           ([InitializeDatabase,
             Log ERROR ''Failed to initialize database: {}'' (ExcArg e)],
            Yielded AtExceptYield) \<and>
         fst (run_lifespan (InitRaises e) bd) =
           [InitializeDatabase,
            Log ERROR ''Failed to initialize database: {}'' (ExcArg e),
            Serving, ClientClose, Log INFO ''Database connection closed'' NoArg] \<and>
         count_list (fst (run_lifespan (InitRaises e) bd)) InitializeDatabase = 1 \<and>
         snd (run_lifespan (InitRaises e) BodyReturns) = Completed"
proof -
  have s: "lifespan_start (InitRaises e) =
           ([InitializeDatabase,
             Log ERROR ''Failed to initialize database: {}'' (ExcArg e)],
            Yielded AtExceptYield)"
    using assms by (simp add: lifespan_start_def except_block_def)
  have x: "fst (aexit AtExceptYield bd) = finally_block"
    by (cases bd) (simp_all add: aexit_def)
  have r: "fst (run_lifespan (InitRaises e) bd) =
           [InitializeDatabase,
            Log ERROR ''Failed to initialize database: {}'' (ExcArg e),
            Serving, ClientClose, Log INFO ''Database connection closed'' NoArg]"
    using x
    by (cases "aexit AtExceptYield bd") (simp add: run_lifespan_def s finally_block_def)
  have c: "snd (run_lifespan (InitRaises e) BodyReturns) = Completed"
    by (simp add: run_lifespan_def s aexit_def)
  from s r c show ?thesis by simp
qed

lemma base_exception_propagates:
  assumes "\<not> is_Exception e"
  shows "lifespan_start (InitRaises e) =
           ([InitializeDatabase, ClientClose,
             Log INFO ''Database connection closed'' NoArg],
            Raised e) \<and>
         run_lifespan (InitRaises e) bd =
           ([InitializeDatabase, ClientClose,
             Log INFO ''Database connection closed'' NoArg],
            Propagated e)"
  using assms by (simp add: run_lifespan_def lifespan_start_def finally_block_def)

text \<open>
  Claim C2, as amended. For every exception deriving from \<^verbatim>\<open>Exception\<close> that
  \<^verbatim>\<open>initialize_database\<close> raises, the hook logs the error and yields, so the server
  starts; the initialisation is called once (no retry), and with a normal shutdown the
  hook completes without raising. For every exception that derives from
  \<^verbatim>\<open>BaseException\<close> only, \<^verbatim>\<open>except Exception\<close> does not catch it: the \<^verbatim>\<open>finally\<close> block
  closes the client, the hook does not yield, so the server is never started, and the
  exception propagates out of the hook, whatever the serving phase would have done.
\<close>

theorem init_exception_swallowed:
  "(is_Exception e \<longrightarrow>
      lifespan_start (InitRaises e) =
        ([InitializeDatabase,
          Log ERROR ''Failed to initialize database: {}'' (ExcArg e)],
         Yielded AtExceptYield) \<and>
      fst (run_lifespan (InitRaises e) bd) =
        [InitializeDatabase,
         Log ERROR ''Failed to initialize database: {}'' (ExcArg e),
         Serving, ClientClose, Log INFO ''Database connection closed'' NoArg] \<and>
      count_list (fst (run_lifespan (InitRaises e) bd)) InitializeDatabase = 1 \<and>
      snd (run_lifespan (InitRaises e) BodyReturns) = Completed) \<and>
   (\<not> is_Exception e \<longrightarrow>
      lifespan_start (InitRaises e) =
        ([InitializeDatabase, ClientClose,
          Log INFO ''Database connection closed'' NoArg],
         Raised e) \<and>
      run_lifespan (InitRaises e) bd =
        ([InitializeDatabase, ClientClose,
          Log INFO ''Database connection closed'' NoArg],
         Propagated e) \<and>
      Serving \<notin> set (fst (run_lifespan (InitRaises e) bd)) \<and>
      count_list (fst (run_lifespan (InitRaises e) bd)) InitializeDatabase = 1)"
proof (intro conjI impI)
  assume h: "is_Exception e"
  show "lifespan_start (InitRaises e) =
        ([InitializeDatabase,
          Log ERROR ''Failed to initialize database: {}'' (ExcArg e)],
         Yielded AtExceptYield)"
    using exception_caught [OF h, of bd] by blast
  show "fst (run_lifespan (InitRaises e) bd) =
        [InitializeDatabase,
         Log ERROR ''Failed to initialize database: {}'' (ExcArg e),
         Serving, ClientClose, Log INFO ''Database connection closed'' NoArg]"
    using exception_caught [OF h, of bd] by blast
  show "count_list (fst (run_lifespan (InitRaises e) bd)) InitializeDatabase = 1"
    using exception_caught [OF h, of bd] by blast
  show "snd (run_lifespan (InitRaises e) BodyReturns) = Completed"
    using exception_caught [OF h, of bd] by blast
next
  assume n: "\<not> is_Exception e"
  have r: "run_lifespan (InitRaises e) bd =
        ([InitializeDatabase, ClientClose,
          Log INFO ''Database connection closed'' NoArg],
         Propagated e)"
    using base_exception_propagates [OF n, of bd] by blast
  show "lifespan_start (InitRaises e) =
        ([InitializeDatabase, ClientClose,
          Log INFO ''Database connection closed'' NoArg],
         Raised e)"
    using base_exception_propagates [OF n, of bd] by blast
  show "run_lifespan (InitRaises e) bd =
        ([InitializeDatabase, ClientClose,
          Log INFO ''Database connection closed'' NoArg],
         Propagated e)"
    by (rule r)
  show "Serving \<notin> set (fst (run_lifespan (InitRaises e) bd))"
    by (simp add: r)
  show "count_list (fst (run_lifespan (InitRaises e) bd)) InitializeDatabase = 1"
    by (simp add: r)
qed

theorem init_exception_swallowed_witness:
  "is_Exception (Exc FromException ''ServerSelectionTimeoutError'' ''no servers'') \<and>
   snd (lifespan_start
         (InitRaises (Exc FromException ''ServerSelectionTimeoutError'' ''no servers''))) =
     Yielded AtExceptYield \<and>
   snd (run_lifespan
         (InitRaises (Exc FromException ''ServerSelectionTimeoutError'' ''no servers''))
         BodyReturns) = Completed \<and>
   \<not> is_Exception (Exc FromBaseException ''KeyboardInterrupt'' []) \<and>
   run_lifespan (InitRaises (Exc FromBaseException ''KeyboardInterrupt'' []))
       (BodyRaises (Exc FromException ''RuntimeError'' ''late'')) =
     ([InitializeDatabase, ClientClose, Log INFO ''Database connection closed'' NoArg],
      Propagated (Exc FromBaseException ''KeyboardInterrupt'' []))"
proof -
  have h: "is_Exception (Exc FromException ''ServerSelectionTimeoutError'' ''no servers'')"
    by simp
  have n: "\<not> is_Exception (Exc FromBaseException ''KeyboardInterrupt'' [])"
    by simp
  from init_exception_swallowed
         [of "Exc FromException ''ServerSelectionTimeoutError'' ''no servers''" BodyReturns] h
  have a: "snd (lifespan_start
         (InitRaises (Exc FromException ''ServerSelectionTimeoutError'' ''no servers''))) =
     Yielded AtExceptYield \<and>
   snd (run_lifespan
         (InitRaises (Exc FromException ''ServerSelectionTimeoutError'' ''no servers''))
         BodyReturns) = Completed"
    by simp
  from init_exception_swallowed
         [of "Exc FromBaseException ''KeyboardInterrupt'' []"
             "BodyRaises (Exc FromException ''RuntimeError'' ''late'')"] n
  have b: "run_lifespan (InitRaises (Exc FromBaseException ''KeyboardInterrupt'' []))
       (BodyRaises (Exc FromException ''RuntimeError'' ''late'')) =
     ([InitializeDatabase, ClientClose, Log INFO ''Database connection closed'' NoArg],
      Propagated (Exc FromBaseException ''KeyboardInterrupt'' []))"
    by blast
  from h n a b show ?thesis by blast
qed

text \<open>
  Claim C2 as stated, for every exception, fails: \<^verbatim>\<open>except Exception\<close> does not catch an
  exception that derives from \<^verbatim>\<open>BaseException\<close> only. When \<^verbatim>\<open>initialize_database\<close> is
  cancelled (\<^verbatim>\<open>asyncio.CancelledError\<close>), the \<^verbatim>\<open>finally\<close> block runs, the hook never
  yields and the exception propagates.
\<close>

theorem init_base_exception_counterexample:
  "lifespan_start (InitRaises (Exc FromBaseException ''CancelledError'' [])) =
     ([InitializeDatabase, ClientClose, Log INFO ''Database connection closed'' NoArg],
      Raised (Exc FromBaseException ''CancelledError'' [])) \<and>
   run_lifespan (InitRaises (Exc FromBaseException ''CancelledError'' [])) BodyReturns =
     ([InitializeDatabase, ClientClose, Log INFO ''Database connection closed'' NoArg],
      Propagated (Exc FromBaseException ''CancelledError'' []))"
  by (simp add: run_lifespan_def lifespan_start_def finally_block_def)

end
